theory Spec2Isabelle
  imports Main
begin

chapter \<open>The segmented dataset cursors of peaknet\<close>

text \<open>
  The two dataset classes that hand a distributed training loop one window of the global
  index range at a time: \<open>IPCDistributedSegmentedDataset\<close> (ipc_dataset_dist.py), which
  also saves and restores its progress, and \<open>DistributedSegmentedDummyImageData\<close>
  (dummy_dataset.py), which materialises the window on rank 0, broadcasts it and resets
  when it is empty. Both have the attributes \<open>start_idx\<close> and \<open>end_idx\<close> and the methods
  \<open>calculate_end_idx\<close> and \<open>set_start_idx\<close>; the names of the dummy class carry the prefix
  \<open>dummy_\<close> and the methods of the IPC class the prefix \<open>ipc_\<close>.
\<close>

section \<open>Python values shared by both dataset classes\<close>

text \<open>
  Python integers are unbounded, so every index is an \<open>int\<close>. Exceptions are values of
  \<open>py_error\<close>; a method that can raise returns \<open>py_error + 'a\<close> with \<open>Inl\<close> the exception.
\<close>

datatype py_error =
    IndexError string
  | TypeError string
  | FileNotFoundError string

text \<open>\<open>list(range(a, b))\<close>: the integers from \<open>a\<close> up to, not including, \<open>b\<close>; empty when \<open>b \<le> a\<close>.\<close>

definition py_range :: "int \<Rightarrow> int \<Rightarrow> int list" where
  "py_range a b = [a..b - 1]"

text \<open>
  \<open>xs[i]\<close> on a Python list: a negative index counts from the end of the list, and an index
  outside \<open>[-len, len)\<close> raises \<open>IndexError\<close>.
\<close>

definition py_getitem :: "'a list \<Rightarrow> int \<Rightarrow> py_error + 'a" where
  "py_getitem xs i =
     (if 0 \<le> i \<and> i < int (length xs) then Inr (xs ! nat i)
      else if i < 0 \<and> - int (length xs) \<le> i then Inr (xs ! nat (int (length xs) + i))
      else Inl (IndexError ''list index out of range''))"

section \<open>\<open>IPCDistributedSegmentedDataset\<close> (ipc_dataset_dist.py)\<close>

text \<open>
  The configuration dataclass and the attributes of the dataset object. A dataset handle
  (the tuple \<open>(exp, run, access_mode, detector_name, event)\<close>) is never inspected by the
  cursor, so its type is the parameter \<open>'h\<close>. The fields \<open>transforms\<close>, \<open>is_perf\<close> and
  \<open>server_address\<close> only serve \<open>fetch_event\<close> and the transform pipeline and are left out.
\<close>

record 'h ipc_config =
  cfg_full_dataset :: "'h list"
  cfg_micro_batch_size_per_rank :: int
  cfg_world_size :: int

record 'h ipc_dataset =
  full_dataset :: "'h list"
  micro_batch_size_per_rank :: int
  world_size :: int
  total_size :: int
  start_idx :: int
  end_idx :: int

definition ipc_calculate_end_idx :: "'h ipc_dataset \<Rightarrow> int" where
  "ipc_calculate_end_idx self =
     min (start_idx self + micro_batch_size_per_rank self * world_size self) (total_size self)"

text \<open>
  \<open>__init__\<close> contains no check and no \<open>raise\<close>, so construction is a total function.
  \<open>calculate_end_idx\<close> does not read \<open>end_idx\<close>; the \<open>0\<close> below only stands for the
  attribute that does not exist yet when it is called.
\<close>

definition ipc_init :: "'h ipc_config \<Rightarrow> 'h ipc_dataset" where
  "ipc_init config =
     (let self = \<lparr> full_dataset = cfg_full_dataset config,
                   micro_batch_size_per_rank = cfg_micro_batch_size_per_rank config,
                   world_size = cfg_world_size config,
                   total_size = int (length (cfg_full_dataset config)),
                   start_idx = 0,
                   end_idx = 0 \<rparr>
      in self\<lparr>end_idx := ipc_calculate_end_idx self\<rparr>)"

definition ipc_set_start_idx :: "int \<Rightarrow> 'h ipc_dataset \<Rightarrow> 'h ipc_dataset" where
  "ipc_set_start_idx start self =
     (let self1 = self\<lparr>start_idx := start\<rparr>
      in self1\<lparr>end_idx := ipc_calculate_end_idx self1\<rparr>)"

definition ipc_len :: "'h ipc_dataset \<Rightarrow> int" where
  "ipc_len self = end_idx self - start_idx self"

text \<open>
  \<open>__getitem__\<close> up to the dataset handle it resolves; what follows in the source
  (\<open>fetch_event\<close> over the socket, the transforms) is the external sample fetcher.
\<close>

definition ipc_getitem :: "'h ipc_dataset \<Rightarrow> int \<Rightarrow> py_error + 'h" where
  "ipc_getitem self idx =
     (if idx \<ge> end_idx self - start_idx self
      then Inl (IndexError ''Index out of range for the current segment'')
      else let global_idx = start_idx self + idx
           in py_getitem (full_dataset self) global_idx)"

section \<open>\<open>DistributedSegmentedDummyImageData\<close> (dummy_dataset.py)\<close>

text \<open>
  The configuration dataclass without the tensor shape \<open>C, H, W\<close>, which no cursor method
  reads, and the three attributes the cursor methods use. (\<open>__init__\<close> also copies
  \<open>total_size\<close> and \<open>seg_size\<close> into attributes that are never read again.)
\<close>

record dummy_config =
  seg_size :: int
  dummy_total_size :: int
  dist_rank :: int
  dist_world_size :: int

record dummy_dataset =
  dummy_start_idx :: int
  dummy_end_idx :: int
  current_dataset :: "int list option"

definition dummy_init :: "dummy_config \<Rightarrow> dummy_dataset" where
  "dummy_init config = \<lparr> dummy_start_idx = 0, dummy_end_idx = 0, current_dataset = None \<rparr>"

definition dummy_reset :: "dummy_dataset \<Rightarrow> dummy_dataset" where
  "dummy_reset self = self\<lparr> dummy_start_idx := 0, dummy_end_idx := 0, current_dataset := None \<rparr>"

definition dummy_len :: "dummy_dataset \<Rightarrow> int" where
  "dummy_len self = dummy_end_idx self - dummy_start_idx self"

definition dummy_calculate_end_idx :: "dummy_config \<Rightarrow> dummy_dataset \<Rightarrow> int" where
  "dummy_calculate_end_idx config self =
     min (dummy_start_idx self + seg_size config * dist_world_size config) (dummy_total_size config)"

definition update_dataset_segment :: "dummy_dataset \<Rightarrow> int list" where
  "update_dataset_segment self = py_range (dummy_start_idx self) (dummy_end_idx self)"

text \<open>
  \<open>torch.distributed.broadcast_object_list(object_list, src = 0)\<close> is the group transport
  (PyTorch, not this repository). Spec \<section>4.3: every participant receives the exact value
  produced by the source rank, and a non-source participant's own value is overwritten.
  \<open>channel\<close> is the object the source put on the channel; \<open>dist_rank\<close> of the configuration
  is taken to be the rank of the process in the group.
\<close>

definition broadcast_object_list :: "dummy_config \<Rightarrow> int list option \<Rightarrow> int list option \<Rightarrow> int list option" where
  "broadcast_object_list config channel object_list =
     (if dist_rank config = 0 then object_list else channel)"

text \<open>
  \<open>set_start_idx\<close>, lines 106 to 113: everything a rank does on its own before the
  collective. The result is the updated object together with \<open>object_list[0]\<close>, where
  \<open>None\<close> is Python's \<open>None\<close>.
\<close>

definition set_start_idx_local :: "dummy_config \<Rightarrow> int \<Rightarrow> dummy_dataset \<Rightarrow> dummy_dataset \<times> int list option" where
  "set_start_idx_local config start self =
     (let self1 = self\<lparr>dummy_start_idx := start\<rparr>;
          self2 = self1\<lparr>dummy_end_idx := dummy_calculate_end_idx config self1\<rparr>
      in if dist_rank config = 0
         then (let self3 = self2\<lparr>current_dataset := Some (update_dataset_segment self2)\<rparr>
               in (self3, current_dataset self3))
         else (self2, None))"

text \<open>
  The whole of \<open>set_start_idx\<close> as one rank runs it. \<open>len(None)\<close> raises \<open>TypeError\<close>.
  The result is the returned flag \<open>requires_reset\<close> and the updated object.
\<close>

definition dummy_set_start_idx ::
  "dummy_config \<Rightarrow> int list option \<Rightarrow> int \<Rightarrow> dummy_dataset \<Rightarrow> py_error + bool \<times> dummy_dataset" where
  "dummy_set_start_idx config channel start self =
     (let (self3, object_list) = set_start_idx_local config start self;
          self4 = (if dist_world_size config > 1
                   then self3\<lparr>current_dataset := broadcast_object_list config channel object_list\<rparr>
                   else self3)
      in case current_dataset self4 of
           None \<Rightarrow> Inl (TypeError ''object of type NoneType has no len()'')
         | Some ds \<Rightarrow>
             if length ds = 0 then Inr (True, dummy_reset self4) else Inr (False, self4))"

text \<open>
  A group of ranks calling \<open>set_start_idx\<close> together, each with its own configuration,
  argument and object; the head of the list is the process of rank 0, whose object list is
  what the collective delivers.
\<close>

definition dummy_set_start_idx_group ::
  "(dummy_config \<times> int \<times> dummy_dataset) list \<Rightarrow> (py_error + bool \<times> dummy_dataset) list" where
  "dummy_set_start_idx_group ranks =
     (case ranks of
        [] \<Rightarrow> []
      | (config0, start0, self0) # _ \<Rightarrow>
          map (\<lambda>(config, start, self).
                 dummy_set_start_idx config (snd (set_start_idx_local config0 start0 self0)) start self)
              ranks)"

text \<open>
  A group of \<open>n\<close> ranks that share \<open>seg_size\<close> and \<open>total_size\<close>, rank \<open>i\<close> at position \<open>i\<close>.
\<close>

definition uniform_group :: "int \<Rightarrow> int \<Rightarrow> nat \<Rightarrow> dummy_config list" where
  "uniform_group seg tot n =
     map (\<lambda>i. \<lparr> seg_size = seg, dummy_total_size = tot,
                dist_rank = int i, dist_world_size = int n \<rparr>) [0..<n]"

text \<open>
  The sweep of the coverage property: every rank runs
  \<open>reset = ds.set_start_idx(start); if reset: stop; visit ds.current_dataset; start = ds.end_idx\<close>
  in lockstep. The first exception ends the run. Ranks that disagree on \<open>reset\<close> leave the
  others waiting in the collective for ever, so that case does not return (\<open>None\<close>), as does
  a run that needs more than the given number of rounds. The result lists, round by round,
  the index set every rank holds.
\<close>

fun first_error :: "(py_error + 'a) list \<Rightarrow> py_error + 'a list" where
  "first_error [] = Inr []"
| "first_error (Inl e # rs) = Inl e"
| "first_error (Inr x # rs) = (case first_error rs of Inl e \<Rightarrow> Inl e | Inr xs \<Rightarrow> Inr (x # xs))"

definition held_indices :: "dummy_dataset \<Rightarrow> int list" where
  "held_indices self = (case current_dataset self of None \<Rightarrow> [] | Some ds \<Rightarrow> ds)"

fun sweep ::
  "nat \<Rightarrow> dummy_config list \<Rightarrow> int list \<Rightarrow> dummy_dataset list \<Rightarrow> (py_error + int list list list) option" where
  "sweep 0 configs starts selves = None"
| "sweep (Suc fuel) configs starts selves =
     (case first_error (dummy_set_start_idx_group (zip configs (zip starts selves))) of
        Inl e \<Rightarrow> Some (Inl e)
      | Inr rs \<Rightarrow>
          if list_all fst rs then Some (Inr [])
          else if list_ex fst rs then None
          else (case sweep fuel configs (map (dummy_end_idx \<circ> snd) rs) (map snd rs) of
                  None \<Rightarrow> None
                | Some (Inl e) \<Rightarrow> Some (Inl e)
                | Some (Inr ws) \<Rightarrow> Some (Inr (map (held_indices \<circ> snd) rs # ws))))"

text \<open>
  The outcome of one round in closed form: with \<open>k = seg_size * dist_world_size\<close>, a call
  \<open>set_start_idx(a)\<close> on the coordinating rank either keeps the window \<open>[a, min(a + k, total))\<close>
  or, when that window is empty, resets.
\<close>

definition window_result :: "int \<Rightarrow> int \<Rightarrow> int \<Rightarrow> bool \<times> dummy_dataset" where
  "window_result k tot a =
     (if a < min (a + k) tot
      then (False, \<lparr> dummy_start_idx = a, dummy_end_idx = min (a + k) tot,
                     current_dataset = Some (py_range a (min (a + k) tot)) \<rparr>)
      else (True, \<lparr> dummy_start_idx = 0, dummy_end_idx = 0, current_dataset = None \<rparr>))"

text \<open>
  For the cross-rank agreement: the list \<open>range(start_idx, end_idx)\<close> that the process of
  rank 0 materialises in a group call, a group of at least two ranks in which the rank of
  every configuration is its position and every rank takes part in the collective, and
  what a rank is left with after the call (the returned flag and \<open>current_dataset\<close>).
\<close>

definition coordinator_segment :: "(dummy_config \<times> int \<times> dummy_dataset) list \<Rightarrow> int list" where
  "coordinator_segment ranks =
     (case ranks of
        [] \<Rightarrow> []
      | (config0, start0, self0) # _ \<Rightarrow>
          update_dataset_segment (fst (set_start_idx_local config0 start0 self0)))"

definition rank_group :: "(dummy_config \<times> int \<times> dummy_dataset) list \<Rightarrow> bool" where
  "rank_group ranks =
     (2 \<le> length ranks
      \<and> map (\<lambda>r. dist_rank (fst r)) ranks = map int [0..<length ranks]
      \<and> list_all (\<lambda>r. 1 < dist_world_size (fst r)) ranks)"

definition index_set_after :: "py_error + bool \<times> dummy_dataset \<Rightarrow> py_error + bool \<times> int list option" where
  "index_set_after r = map_sum id (\<lambda>(requires_reset, self). (requires_reset, current_dataset self)) r"

section \<open>Checkpoints of \<open>IPCDistributedSegmentedDataset\<close>\<close>

text \<open>
  A checkpoint is the Python dict that \<open>save_checkpoint\<close> builds, kept as an association
  list from key to integer. The checkpoint store maps a path to the dict saved there:
  \<open>torch.save\<close> writes it and \<open>torch.load\<close> reads it back or raises when nothing is there.
\<close>

type_synonym checkpoint = "(string \<times> int) list"

type_synonym checkpoint_store = "string \<Rightarrow> checkpoint option"

definition torch_save :: "checkpoint \<Rightarrow> string \<Rightarrow> checkpoint_store \<Rightarrow> checkpoint_store" where
  "torch_save obj path store = store(path \<mapsto> obj)"

definition torch_load :: "checkpoint_store \<Rightarrow> string \<Rightarrow> py_error + checkpoint" where
  "torch_load store path =
     (case store path of
        None \<Rightarrow> Inl (FileNotFoundError path)
      | Some obj \<Rightarrow> Inr obj)"

text \<open>\<open>d.get(key, default)\<close> on a dict.\<close>

definition dict_get :: "checkpoint \<Rightarrow> string \<Rightarrow> int \<Rightarrow> int" where
  "dict_get d key dflt = (case map_of d key of None \<Rightarrow> dflt | Some v \<Rightarrow> v)"

text \<open>
  \<open>save_checkpoint\<close>: only rank 0 writes. The barrier that follows changes no state.
\<close>

definition ipc_save_checkpoint ::
  "'h ipc_dataset \<Rightarrow> string \<Rightarrow> int \<Rightarrow> checkpoint_store \<Rightarrow> checkpoint_store" where
  "ipc_save_checkpoint self checkpoint_path rank store =
     (if rank = 0
      then torch_save [(''end_idx'', end_idx self),
                       (''micro_batch_size_per_rank'', micro_batch_size_per_rank self)]
             checkpoint_path store
      else store)"

text \<open>
  Modelled from the spec: \<open>broadcast_dict\<close> of \<open>utils_fsdp\<close>, which is not among the source
  files. Spec \<section>4.3: \<open>broadcast(value, sourceRank)\<close> gives every participant the exact value
  produced by the source rank; a non-source participant's input is ignored. \<open>channel\<close> is the
  value the source rank produced.
\<close>

definition broadcast_dict ::
  "checkpoint option \<Rightarrow> checkpoint option \<Rightarrow> int \<Rightarrow> int \<Rightarrow> checkpoint option" where
  "broadcast_dict channel obj rank src = (if rank = src then obj else channel)"

text \<open>
  The warning of line 117: the checkpoint's batch size and the configured one it replaces.
\<close>

datatype warning = Micro_batch_size_changed int int

text \<open>
  \<open>load_checkpoint_and_broadcast\<close>, lines 114 to 118: what a rank does with the checkpoint
  it holds after the broadcast. \<open>if checkpoint:\<close> is false for \<open>None\<close> and for the empty dict.
\<close>

definition ipc_apply_checkpoint ::
  "checkpoint option \<Rightarrow> 'h ipc_dataset \<Rightarrow> warning list \<times> 'h ipc_dataset" where
  "ipc_apply_checkpoint checkpoint self =
     (case checkpoint of
        None \<Rightarrow> ([], self)
      | Some ck \<Rightarrow>
          if ck = [] then ([], self)
          else let self1 = ipc_set_start_idx (dict_get ck ''end_idx'' 0) self
               in case map_of ck ''micro_batch_size_per_rank'' of
                    None \<Rightarrow> ([], self1)
                  | Some m \<Rightarrow>
                      if m \<noteq> micro_batch_size_per_rank self1
                      then ([Micro_batch_size_changed m (micro_batch_size_per_rank self1)],
                            self1\<lparr>micro_batch_size_per_rank := m\<rparr>)
                      else ([], self1))"

text \<open>
  \<open>load_checkpoint_and_broadcast\<close> as one rank runs it: the warnings it emits and the
  updated object, or the exception of \<open>torch.load\<close> on rank 0.
\<close>

definition ipc_load_checkpoint_and_broadcast ::
  "checkpoint_store \<Rightarrow> checkpoint option \<Rightarrow> string \<Rightarrow> int \<Rightarrow> 'h ipc_dataset
     \<Rightarrow> py_error + warning list \<times> 'h ipc_dataset" where
  "ipc_load_checkpoint_and_broadcast store channel checkpoint_path rank self =
     (case (if rank = 0 then map_sum id Some (torch_load store checkpoint_path) else Inr None) of
        Inl e \<Rightarrow> Inl e
      | Inr checkpoint \<Rightarrow> Inr (ipc_apply_checkpoint (broadcast_dict channel checkpoint rank 0) self))"

text \<open>
  The calls on a cursor, and the states reachable from construction through calls that
  \<open>allowed\<close> admits. \<open>save_checkpoint\<close> writes the store and assigns no attribute, so it
  leaves the object as it is. A load is given by the checkpoint the rank holds after the
  broadcast.
\<close>

datatype ipc_call =
    Set_start_idx int
  | Save_checkpoint string int
  | Load_checkpoint "checkpoint option"

fun ipc_exec :: "ipc_call \<Rightarrow> 'h ipc_dataset \<Rightarrow> 'h ipc_dataset" where
  "ipc_exec (Set_start_idx start) self = ipc_set_start_idx start self"
| "ipc_exec (Save_checkpoint checkpoint_path rank) self = self"
| "ipc_exec (Load_checkpoint checkpoint) self = snd (ipc_apply_checkpoint checkpoint self)"

inductive ipc_reachable ::
  "('h ipc_dataset \<Rightarrow> ipc_call \<Rightarrow> bool) \<Rightarrow> 'h ipc_config \<Rightarrow> 'h ipc_dataset \<Rightarrow> bool"
  for allowed :: "'h ipc_dataset \<Rightarrow> ipc_call \<Rightarrow> bool" and config :: "'h ipc_config" where
  constructed: "ipc_reachable allowed config (ipc_init config)"
| called: "ipc_reachable allowed config self \<Longrightarrow> allowed self call
           \<Longrightarrow> ipc_reachable allowed config (ipc_exec call self)"


text \<open>
  Three sets of calls; a save is in each of them. \<open>in_range_call\<close>: the argument of \<open>set_start_idx\<close>, or the
  \<open>end_idx\<close> of the checkpoint, lies in \<open>[0, total_size]\<close>, and the batch size the checkpoint
  brings keeps the product with \<open>world_size\<close> non-negative. \<open>keeps_batch_size\<close>: the
  checkpoint carries no batch size or the current one. \<open>any_call\<close>: every call. The
  predicate \<open>window_ok\<close> is the invariant \<open>0 \<le> start \<le> end \<le> total\<close> with a non-negative
  product.
\<close>

fun in_range_call :: "'h ipc_dataset \<Rightarrow> ipc_call \<Rightarrow> bool" where
  "in_range_call self (Set_start_idx start) = (0 \<le> start \<and> start \<le> total_size self)"
| "in_range_call self (Save_checkpoint checkpoint_path rank) = True"
| "in_range_call self (Load_checkpoint None) = True"
| "in_range_call self (Load_checkpoint (Some ck)) =
     (0 \<le> dict_get ck ''end_idx'' 0 \<and> dict_get ck ''end_idx'' 0 \<le> total_size self
      \<and> 0 \<le> dict_get ck ''micro_batch_size_per_rank'' (micro_batch_size_per_rank self)
               * world_size self)"

fun keeps_batch_size :: "'h ipc_dataset \<Rightarrow> ipc_call \<Rightarrow> bool" where
  "keeps_batch_size self (Set_start_idx start) = True"
| "keeps_batch_size self (Save_checkpoint checkpoint_path rank) = True"
| "keeps_batch_size self (Load_checkpoint None) = True"
| "keeps_batch_size self (Load_checkpoint (Some ck)) =
     (dict_get ck ''micro_batch_size_per_rank'' (micro_batch_size_per_rank self)
        = micro_batch_size_per_rank self)"

fun any_call :: "'h ipc_dataset \<Rightarrow> ipc_call \<Rightarrow> bool" where
  "any_call self call = True"

definition window_ok :: "'h ipc_dataset \<Rightarrow> bool" where
  "window_ok self =
     (0 \<le> start_idx self \<and> start_idx self \<le> end_idx self \<and> end_idx self \<le> total_size self
      \<and> 0 \<le> micro_batch_size_per_rank self * world_size self)"

section \<open>One round of a group of ranks\<close>

lemma py_range_empty: "b \<le> a \<Longrightarrow> py_range a b = []"
  by (simp add: py_range_def)

lemma py_range_nonempty: "a < b \<Longrightarrow> py_range a b \<noteq> []"
  by (simp add: py_range_def)

lemma length_group: "length (dummy_set_start_idx_group ranks) = length ranks"
  by (cases ranks) (auto simp: dummy_set_start_idx_group_def)

lemma nth_group:
  "i < length ranks \<Longrightarrow>
     dummy_set_start_idx_group ranks ! i =
       (case ranks ! i of (config, start, self) \<Rightarrow>
          (case ranks ! 0 of (config0, start0, self0) \<Rightarrow>
             dummy_set_start_idx config (snd (set_start_idx_local config0 start0 self0)) start self))"
  by (cases ranks; cases i) (auto simp: dummy_set_start_idx_group_def split: prod.splits)

lemma py_range_append: "a \<le> b \<Longrightarrow> b \<le> c \<Longrightarrow> py_range a b @ py_range b c = py_range a c"
proof (cases "a = b")
  case True
  then show ?thesis by (simp add: py_range_def)
next
  case False
  assume "a \<le> b" "b \<le> c"
  with False have "a \<le> b - 1" "b - 1 \<le> c - 1" by simp_all
  then have "[a..c - 1] = [a..b - 1] @ [b - 1 + 1..c - 1]"
    by (rule upto_split2)
  then show ?thesis unfolding py_range_def by simp
qed

lemma length_py_range: "length (py_range a b) = nat (b - a)"
  by (simp add: py_range_def)

lemma coordinator_step:
  "dist_rank config = 0 \<Longrightarrow>
     dummy_set_start_idx config channel a self
       = Inr (window_result (seg_size config * dist_world_size config) (dummy_total_size config) a)"
  by (cases self)
     (simp add: dummy_set_start_idx_def set_start_idx_local_def window_result_def
        broadcast_object_list_def update_dataset_segment_def dummy_calculate_end_idx_def
        dummy_reset_def length_py_range Let_def; arith)

lemma follower_step:
  "dist_rank config \<noteq> 0 \<Longrightarrow> 1 < dist_world_size config \<Longrightarrow>
     dummy_set_start_idx config
        (Some (py_range a (min (a + seg_size config * dist_world_size config) (dummy_total_size config)))) a self
       = Inr (window_result (seg_size config * dist_world_size config) (dummy_total_size config) a)"
  by (cases self)
     (simp add: dummy_set_start_idx_def set_start_idx_local_def window_result_def
        broadcast_object_list_def dummy_calculate_end_idx_def
        dummy_reset_def length_py_range Let_def; arith)

lemma coordinator_object:
  "dist_rank config = 0 \<Longrightarrow>
     snd (set_start_idx_local config a self)
       = Some (py_range a (min (a + seg_size config * dist_world_size config) (dummy_total_size config)))"
  by (simp add: set_start_idx_local_def update_dataset_segment_def dummy_calculate_end_idx_def Let_def)

lemma uniform_group_nth:
  "i < n \<Longrightarrow> uniform_group seg tot n ! i
     = \<lparr> seg_size = seg, dummy_total_size = tot, dist_rank = int i, dist_world_size = int n \<rparr>"
  by (simp add: uniform_group_def)

lemma length_uniform_group: "length (uniform_group seg tot n) = n"
  by (simp add: uniform_group_def)

lemma uniform_step:
  assumes "length selves = n"
  shows "dummy_set_start_idx_group (zip (uniform_group seg tot n) (zip (replicate n a) selves))
           = replicate n (Inr (window_result (seg * int n) tot a))"
proof (rule nth_equalityI)
  show "length (dummy_set_start_idx_group (zip (uniform_group seg tot n) (zip (replicate n a) selves)))
          = length (replicate n (Inr (window_result (seg * int n) tot a)))"
    using assms by (simp add: length_group length_uniform_group)
next
  fix i
  assume "i < length (dummy_set_start_idx_group (zip (uniform_group seg tot n) (zip (replicate n a) selves)))"
  then have i: "i < n"
    using assms by (simp add: length_group length_uniform_group)
  then have n: "0 < n" by simp
  let ?c = "\<lambda>j. \<lparr> seg_size = seg, dummy_total_size = tot, dist_rank = int j, dist_world_size = int n \<rparr>"
  have ch: "snd (set_start_idx_local (?c 0) a (selves ! 0)) = Some (py_range a (min (a + seg * int n) tot))"
    using coordinator_object[of "?c 0" a "selves ! 0"] by simp
  have "dummy_set_start_idx (?c i) (Some (py_range a (min (a + seg * int n) tot))) a (selves ! i)
          = Inr (window_result (seg * int n) tot a)"
  proof (cases "i = 0")
    case True
    then show ?thesis using coordinator_step[of "?c 0"] by simp
  next
    case False
    with i have "1 < int n" by simp
    with False show ?thesis using follower_step[of "?c i" a "selves ! i"] by simp
  qed
  with i n assms ch
  show "dummy_set_start_idx_group (zip (uniform_group seg tot n) (zip (replicate n a) selves)) ! i
          = replicate n (Inr (window_result (seg * int n) tot a)) ! i"
    by (simp add: nth_group length_uniform_group uniform_group_nth)
qed

lemma first_error_replicate: "first_error (replicate n (Inr x)) = Inr (replicate n x)"
  by (induction n) auto

lemma list_all_fst_replicate: "0 < n \<Longrightarrow> list_all fst (replicate n (b, x)) = b"
  by (cases n) (auto simp: list_all_iff)

lemma list_ex_fst_replicate: "0 < n \<Longrightarrow> list_ex fst (replicate n (b, x)) = b"
  by (cases n) (auto simp: list_ex_iff)

lemma sweep_uniform:
  assumes k: "0 < seg * int n"
  shows "length selves = n \<Longrightarrow> nat (tot - a) < fuel \<Longrightarrow>
           \<exists>wins. sweep fuel (uniform_group seg tot n) (replicate n a) selves
                     = Some (Inr (map (replicate n) wins))
                 \<and> concat wins = py_range a tot \<and> [] \<notin> set wins"
proof (induction fuel arbitrary: a selves)
  case 0
  then show ?case by simp
next
  case (Suc fuel)
  from k have n: "0 < n" by (cases n) auto
  let ?e = "min (a + seg * int n) tot"
  have step: "first_error (dummy_set_start_idx_group (zip (uniform_group seg tot n) (zip (replicate n a) selves)))
                = Inr (replicate n (window_result (seg * int n) tot a))"
    using Suc.prems(1) by (simp add: uniform_step first_error_replicate)
  show ?case
  proof (cases "a < ?e")
    case True
    let ?st = "\<lparr> dummy_start_idx = a, dummy_end_idx = ?e, current_dataset = Some (py_range a ?e) \<rparr>"
    have wr: "window_result (seg * int n) tot a = (False, ?st)"
      using True by (simp add: window_result_def)
    from True Suc.prems(2) have "nat (tot - ?e) < fuel" by arith
    with Suc.IH[of "replicate n ?st" ?e]
    obtain wins where w: "sweep fuel (uniform_group seg tot n) (replicate n ?e) (replicate n ?st)
                            = Some (Inr (map (replicate n) wins))"
        "concat wins = py_range ?e tot" "[] \<notin> set wins"
      by auto
    have "sweep (Suc fuel) (uniform_group seg tot n) (replicate n a) selves
            = Some (Inr (map (replicate n) (py_range a ?e # wins)))"
      using n w(1) by (simp add: step wr list_all_fst_replicate list_ex_fst_replicate held_indices_def)
    moreover have "concat (py_range a ?e # wins) = py_range a tot"
      using True w(2) py_range_append[of a ?e tot] by simp
    moreover have "[] \<notin> set (py_range a ?e # wins)"
      using True w(3) py_range_nonempty[of a ?e] by auto
    ultimately show ?thesis by blast
  next
    case False
    then have wr: "window_result (seg * int n) tot a
                     = (True, \<lparr> dummy_start_idx = 0, dummy_end_idx = 0, current_dataset = None \<rparr>)"
      by (simp add: window_result_def)
    from False k have "tot \<le> a" by simp
    then have "py_range a tot = []" by (rule py_range_empty)
    moreover have "sweep (Suc fuel) (uniform_group seg tot n) (replicate n a) selves
            = Some (Inr (map (replicate n) []))"
      using n by (simp add: step wr list_all_fst_replicate)
    ultimately show ?thesis by (intro exI[of _ "[]"]) simp
  qed
qed

lemma follower_receives:
  "dist_rank config \<noteq> 0 \<Longrightarrow> 1 < dist_world_size config \<Longrightarrow>
     index_set_after (dummy_set_start_idx config (Some seg) a self)
       = Inr (seg = [], if seg = [] then None else Some seg)"
  by (simp add: index_set_after_def dummy_set_start_idx_def set_start_idx_local_def
        broadcast_object_list_def dummy_reset_def Let_def)

lemma coordinator_keeps:
  "dist_rank config = 0 \<Longrightarrow>
     index_set_after (dummy_set_start_idx config channel a self)
       = Inr (update_dataset_segment (fst (set_start_idx_local config a self)) = [],
              if update_dataset_segment (fst (set_start_idx_local config a self)) = [] then None
              else Some (update_dataset_segment (fst (set_start_idx_local config a self))))"
  by (simp add: index_set_after_def dummy_set_start_idx_def set_start_idx_local_def
        broadcast_object_list_def dummy_reset_def update_dataset_segment_def Let_def)

lemma coordinator_channel:
  "dist_rank config = 0 \<Longrightarrow>
     snd (set_start_idx_local config a self)
       = Some (update_dataset_segment (fst (set_start_idx_local config a self)))"
  by (simp add: set_start_idx_local_def update_dataset_segment_def Let_def)

section \<open>Calls on the IPC dataset\<close>

lemma ipc_set_start_idx_fields:
  "start_idx (ipc_set_start_idx a self) = a"
  "end_idx (ipc_set_start_idx a self)
     = min (a + micro_batch_size_per_rank self * world_size self) (total_size self)"
  "total_size (ipc_set_start_idx a self) = total_size self"
  "micro_batch_size_per_rank (ipc_set_start_idx a self) = micro_batch_size_per_rank self"
  "world_size (ipc_set_start_idx a self) = world_size self"
  "full_dataset (ipc_set_start_idx a self) = full_dataset self"
  by (simp_all add: ipc_set_start_idx_def ipc_calculate_end_idx_def Let_def)

lemma ipc_init_fields:
  "start_idx (ipc_init config) = 0"
  "end_idx (ipc_init config)
     = min (cfg_micro_batch_size_per_rank config * cfg_world_size config)
           (int (length (cfg_full_dataset config)))"
  "total_size (ipc_init config) = int (length (cfg_full_dataset config))"
  "micro_batch_size_per_rank (ipc_init config) = cfg_micro_batch_size_per_rank config"
  "world_size (ipc_init config) = cfg_world_size config"
  "full_dataset (ipc_init config) = cfg_full_dataset config"
  by (simp_all add: ipc_init_def ipc_calculate_end_idx_def Let_def)

lemma ipc_apply_checkpoint_truthy:
  "ck \<noteq> [] \<Longrightarrow>
     snd (ipc_apply_checkpoint (Some ck) self)
       = (ipc_set_start_idx (dict_get ck ''end_idx'' 0) self)
           \<lparr>micro_batch_size_per_rank :=
              dict_get ck ''micro_batch_size_per_rank'' (micro_batch_size_per_rank self)\<rparr>"
  by (simp add: ipc_apply_checkpoint_def dict_get_def ipc_set_start_idx_fields Let_def
        split: option.splits)

lemma ipc_apply_checkpoint_falsy:
  "snd (ipc_apply_checkpoint None self) = self"
  "snd (ipc_apply_checkpoint (Some []) self) = self"
  by (simp_all add: ipc_apply_checkpoint_def)

lemma window_ok_exec:
  assumes "window_ok self" and "in_range_call self call"
  shows "window_ok (ipc_exec call self)"
proof (cases call)
  case (Set_start_idx a)
  with assms show ?thesis
    by (simp add: window_ok_def ipc_set_start_idx_fields)
next
  case (Save_checkpoint checkpoint_path rank)
  with assms(1) show ?thesis by simp
next
  case (Load_checkpoint checkpoint)
  show ?thesis
  proof (cases checkpoint)
    case None
    with Load_checkpoint assms(1) show ?thesis by (simp add: ipc_apply_checkpoint_falsy)
  next
    case (Some ck)
    show ?thesis
    proof (cases "ck = []")
      case True
      with Some Load_checkpoint assms(1) show ?thesis by (simp add: ipc_apply_checkpoint_falsy)
    next
      case False
      with Some Load_checkpoint assms show ?thesis
        by (simp add: ipc_apply_checkpoint_truthy window_ok_def ipc_set_start_idx_fields)
    qed
  qed
qed

lemma window_ok_reachable:
  assumes "0 \<le> cfg_micro_batch_size_per_rank config * cfg_world_size config"
    and "ipc_reachable in_range_call config self"
  shows "window_ok self"
  using assms(2)
proof (induction rule: ipc_reachable.induct)
  case constructed
  from assms(1) show ?case by (simp add: window_ok_def ipc_init_fields)
next
  case (called self call)
  then show ?case by (simp add: window_ok_exec)
qed

lemma boundary_exec:
  assumes "end_idx self = ipc_calculate_end_idx self" and "keeps_batch_size self call"
  shows "end_idx (ipc_exec call self) = ipc_calculate_end_idx (ipc_exec call self)"
proof (cases call)
  case (Set_start_idx a)
  then show ?thesis
    by (simp add: ipc_calculate_end_idx_def ipc_set_start_idx_fields)
next
  case (Save_checkpoint checkpoint_path rank)
  with assms(1) show ?thesis by simp
next
  case (Load_checkpoint checkpoint)
  show ?thesis
  proof (cases checkpoint)
    case None
    with Load_checkpoint assms(1) show ?thesis by (simp add: ipc_apply_checkpoint_falsy)
  next
    case (Some ck)
    show ?thesis
    proof (cases "ck = []")
      case True
      with Some Load_checkpoint assms(1) show ?thesis by (simp add: ipc_apply_checkpoint_falsy)
    next
      case False
      with Some Load_checkpoint assms(2) show ?thesis
        by (simp add: ipc_apply_checkpoint_truthy ipc_calculate_end_idx_def ipc_set_start_idx_fields)
    qed
  qed
qed

lemma boundary_reachable:
  "ipc_reachable keeps_batch_size config self \<Longrightarrow> end_idx self = ipc_calculate_end_idx self"
proof (induction rule: ipc_reachable.induct)
  case constructed
  show ?case by (simp add: ipc_calculate_end_idx_def ipc_init_fields)
next
  case (called self call)
  then show ?case by (simp add: boundary_exec)
qed

lemma clamped_exec:
  assumes "end_idx self \<le> total_size self"
  shows "end_idx (ipc_exec call self) \<le> total_size (ipc_exec call self)"
proof (cases call)
  case (Set_start_idx a)
  then show ?thesis by (simp add: ipc_set_start_idx_fields)
next
  case (Save_checkpoint checkpoint_path rank)
  with assms show ?thesis by simp
next
  case (Load_checkpoint checkpoint)
  show ?thesis
  proof (cases checkpoint)
    case None
    with Load_checkpoint assms show ?thesis by (simp add: ipc_apply_checkpoint_falsy)
  next
    case (Some ck)
    with Load_checkpoint assms show ?thesis
      by (cases "ck = []")
         (simp_all add: ipc_apply_checkpoint_falsy ipc_apply_checkpoint_truthy ipc_set_start_idx_fields)
  qed
qed

lemma clamped_reachable:
  "ipc_reachable any_call config self \<Longrightarrow> end_idx self \<le> total_size self"
proof (induction rule: ipc_reachable.induct)
  case constructed
  show ?case by (simp add: ipc_init_fields)
next
  case (called self call)
  then show ?case by (simp add: clamped_exec)
qed

lemma torch_load_saved:
  "torch_load (ipc_save_checkpoint self path 0 store) path
     = Inr [(''end_idx'', end_idx self),
            (''micro_batch_size_per_rank'', micro_batch_size_per_rank self)]"
  by (simp add: torch_load_def ipc_save_checkpoint_def torch_save_def)

lemma save_only_on_rank_0:
  "rank \<noteq> 0 \<Longrightarrow> ipc_save_checkpoint self path rank store = store"
  by (simp add: ipc_save_checkpoint_def)

lemma load_delivers:
  "torch_load store path = Inr ck \<Longrightarrow>
     ipc_load_checkpoint_and_broadcast store (Some ck) path rank self
       = Inr (ipc_apply_checkpoint (Some ck) self)"
  by (simp add: ipc_load_checkpoint_and_broadcast_def broadcast_dict_def)

lemma getitem_upper_bound:
  "ipc_len self \<le> idx \<Longrightarrow>
     ipc_getitem self idx = Inl (IndexError ''Index out of range for the current segment'')"
  by (simp add: ipc_getitem_def ipc_len_def)

lemma getitem_in_window:
  "0 \<le> start_idx self \<Longrightarrow> end_idx self \<le> int (length (full_dataset self)) \<Longrightarrow>
   0 \<le> idx \<Longrightarrow> idx < ipc_len self \<Longrightarrow>
     ipc_getitem self idx = Inr (full_dataset self ! nat (start_idx self + idx))"
  by (simp add: ipc_getitem_def ipc_len_def py_getitem_def)

section \<open>Segment boundary\<close>

text \<open>
  C5, as amended. In both classes \<open>calculate_end_idx\<close> returns
  \<open>min(start + segmentSize * worldSize, totalSize)\<close>. With a positive product the returned
  value is at least \<open>start\<close> exactly when \<open>start\<close> does not exceed \<open>totalSize\<close>; for a
  start beyond the total size the result is the total size, which is below the start.
\<close>

theorem calculate_end_idx_boundary:
  assumes "0 < micro_batch_size_per_rank self * world_size self"
    and "0 < seg_size config * dist_world_size config"
  shows "ipc_calculate_end_idx self
           = min (start_idx self + micro_batch_size_per_rank self * world_size self) (total_size self)
       \<and> (start_idx self \<le> ipc_calculate_end_idx self) = (start_idx self \<le> total_size self)
       \<and> dummy_calculate_end_idx config d
           = min (dummy_start_idx d + seg_size config * dist_world_size config) (dummy_total_size config)
       \<and> (dummy_start_idx d \<le> dummy_calculate_end_idx config d)
           = (dummy_start_idx d \<le> dummy_total_size config)"
  using assms by (auto simp: ipc_calculate_end_idx_def dummy_calculate_end_idx_def)

text \<open>
  The theorem at a reachable object of each class: a 3-entry dataset with batch size 2 on
  2 ranks, whose boundary is clamped to 3, and the last window of the 10-index scenario.
\<close>

theorem calculate_end_idx_boundary_witness:
  "0 < micro_batch_size_per_rank (ipc_init \<lparr> cfg_full_dataset = [0, 1, 2 :: nat],
         cfg_micro_batch_size_per_rank = 2, cfg_world_size = 2 \<rparr>)
       * world_size (ipc_init \<lparr> cfg_full_dataset = [0, 1, 2 :: nat],
         cfg_micro_batch_size_per_rank = 2, cfg_world_size = 2 \<rparr>)
   \<and> 0 < seg_size \<lparr> seg_size = 2, dummy_total_size = 10, dist_rank = 0, dist_world_size = 2 \<rparr>
         * dist_world_size \<lparr> seg_size = 2, dummy_total_size = 10, dist_rank = 0, dist_world_size = 2 \<rparr>
   \<and> ipc_calculate_end_idx (ipc_init \<lparr> cfg_full_dataset = [0, 1, 2 :: nat],
         cfg_micro_batch_size_per_rank = 2, cfg_world_size = 2 \<rparr>) = 3
   \<and> dummy_calculate_end_idx \<lparr> seg_size = 2, dummy_total_size = 10, dist_rank = 0, dist_world_size = 2 \<rparr>
         \<lparr> dummy_start_idx = 8, dummy_end_idx = 8, current_dataset = None \<rparr> = 10"
  using calculate_end_idx_boundary
    [of "ipc_init \<lparr> cfg_full_dataset = [0, 1, 2 :: nat],
           cfg_micro_batch_size_per_rank = 2, cfg_world_size = 2 \<rparr>"
        "\<lparr> seg_size = 2, dummy_total_size = 10, dist_rank = 0, dist_world_size = 2 \<rparr>"
        "\<lparr> dummy_start_idx = 8, dummy_end_idx = 8, current_dataset = None \<rparr>"]
  by (simp add: ipc_init_def ipc_calculate_end_idx_def)

text \<open>
  The second half of C5 as stated (for all integers, \<open>boundary(start) \<ge> start\<close>) fails
  once the start lies beyond the total size: after \<open>set_start_idx(5)\<close> on a dataset of
  3 entries the boundary is 3.
\<close>

theorem calculate_end_idx_below_start:
  "0 < micro_batch_size_per_rank
         \<lparr> full_dataset = [0, 1, 2 :: nat], micro_batch_size_per_rank = 1, world_size = 1,
           total_size = 3, start_idx = 5, end_idx = 3 \<rparr>
       * world_size
         \<lparr> full_dataset = [0, 1, 2 :: nat], micro_batch_size_per_rank = 1, world_size = 1,
           total_size = 3, start_idx = 5, end_idx = 3 \<rparr>
   \<and> ipc_calculate_end_idx
         \<lparr> full_dataset = [0, 1, 2 :: nat], micro_batch_size_per_rank = 1, world_size = 1,
           total_size = 3, start_idx = 5, end_idx = 3 \<rparr>
       < start_idx
         \<lparr> full_dataset = [0, 1, 2 :: nat], micro_batch_size_per_rank = 1, world_size = 1,
           total_size = 3, start_idx = 5, end_idx = 3 \<rparr>"
  by (simp add: ipc_calculate_end_idx_def)

section \<open>Coverage\<close>

text \<open>
  C1. A group of \<open>n\<close> ranks with \<open>seg_size * world_size > 0\<close> and \<open>total_size > 0\<close> starts
  at \<open>start_idx = 0\<close> and keeps calling \<open>set_start_idx\<close> with the previous \<open>end_idx\<close> until
  the reset is triggered. The run returns, every rank holds the same window in every round,
  no window is empty, and the windows put one after the other are exactly
  \<open>0, 1, \<dots>, total_size - 1\<close>: every global index once, in increasing order, with no gap
  and no overlap. For \<open>total_size = 10\<close>, \<open>seg_size = 2\<close> and two ranks the windows are
  \<open>[0,4)\<close>, \<open>[4,8)\<close>, \<open>[8,10)\<close>, and the fourth call resets.
\<close>

theorem sweep_covers_dataset:
  assumes "0 < seg * int n" and "0 < tot" and "length selves = n" and "nat tot < fuel"
  shows "(\<exists>wins. sweep fuel (uniform_group seg tot n) (replicate n 0) selves
                    = Some (Inr (map (replicate n) wins))
               \<and> concat wins = [0..tot - 1] \<and> [] \<notin> set wins)
       \<and> sweep 4 (uniform_group 2 10 2) [0, 0] [dummy_init c0, dummy_init c1]
           = Some (Inr (map (replicate 2) [[0, 1, 2, 3], [4, 5, 6, 7], [8, 9]]))"
proof
  from assms(4) have "nat (tot - 0) < fuel" by simp
  from sweep_uniform[OF assms(1) assms(3) this]
  show "\<exists>wins. sweep fuel (uniform_group seg tot n) (replicate n 0) selves
                    = Some (Inr (map (replicate n) wins))
               \<and> concat wins = [0..tot - 1] \<and> [] \<notin> set wins"
    by (simp add: py_range_def)
next
  show "sweep 4 (uniform_group 2 10 2) [0, 0] [dummy_init c0, dummy_init c1]
           = Some (Inr (map (replicate 2) [[0, 1, 2, 3], [4, 5, 6, 7], [8, 9]]))"
    by code_simp
qed

text \<open>The general statement at the scenario of two ranks over ten indices.\<close>

theorem sweep_covers_dataset_witness:
  "0 < 2 * int 2 \<and> (0::int) < 10
   \<and> length [\<lparr> dummy_start_idx = 0, dummy_end_idx = 0, current_dataset = None \<rparr>,
               \<lparr> dummy_start_idx = 0, dummy_end_idx = 0, current_dataset = None \<rparr>] = 2
   \<and> nat 10 < 11
   \<and> (\<exists>wins. sweep 11 (uniform_group 2 10 2) (replicate 2 0)
                   [\<lparr> dummy_start_idx = 0, dummy_end_idx = 0, current_dataset = None \<rparr>,
                    \<lparr> dummy_start_idx = 0, dummy_end_idx = 0, current_dataset = None \<rparr>]
                 = Some (Inr (map (replicate 2) wins))
              \<and> concat wins = [0..10 - 1] \<and> [] \<notin> set wins)"
  using sweep_covers_dataset
    [of 2 2 10 "[\<lparr> dummy_start_idx = 0, dummy_end_idx = 0, current_dataset = None \<rparr>,
                 \<lparr> dummy_start_idx = 0, dummy_end_idx = 0, current_dataset = None \<rparr>]" 11]
  by simp

section \<open>Completion\<close>

text \<open>
  C3, as amended. On the dummy dataset, when every rank of a group calls
  \<open>set_start_idx(total_size)\<close>, the list the coordinating rank materialises is empty, every
  rank resets to the constructed state (\<open>start_idx = 0\<close>) and returns \<open>True\<close>. The IPC
  dataset has no reset: its \<open>set_start_idx(total_size)\<close> leaves \<open>start_idx = total_size\<close>
  with \<open>end_idx = min(total_size + k, total_size)\<close>, so the length is \<open>min(k, 0)\<close> for
  \<open>k = micro_batch_size_per_rank * world_size\<close>, and it returns nothing.
\<close>

theorem advance_to_total_size:
  "dummy_set_start_idx_group
      (zip (uniform_group seg tot (length selves)) (zip (replicate (length selves) tot) selves))
     = replicate (length selves) (Inr (True, dummy_init config))
   \<and> update_dataset_segment
        (fst (set_start_idx_local
                \<lparr> seg_size = seg, dummy_total_size = tot, dist_rank = 0, dist_world_size = ws \<rparr>
                tot self)) = []
   \<and> start_idx (ipc_set_start_idx (total_size d) d) = total_size d
   \<and> end_idx (ipc_set_start_idx (total_size d) d)
       = min (total_size d + micro_batch_size_per_rank d * world_size d) (total_size d)
   \<and> ipc_len (ipc_set_start_idx (total_size d) d)
       = min (micro_batch_size_per_rank d * world_size d) 0"
proof -
  have "window_result (seg * int (length selves)) tot tot = (True, dummy_init config)"
    by (simp add: window_result_def dummy_init_def)
  then have "dummy_set_start_idx_group
      (zip (uniform_group seg tot (length selves)) (zip (replicate (length selves) tot) selves))
     = replicate (length selves) (Inr (True, dummy_init config))"
    by (simp add: uniform_step)
  moreover have "update_dataset_segment
        (fst (set_start_idx_local
                \<lparr> seg_size = seg, dummy_total_size = tot, dist_rank = 0, dist_world_size = ws \<rparr>
                tot self)) = []"
    by (simp add: set_start_idx_local_def update_dataset_segment_def dummy_calculate_end_idx_def
          py_range_def Let_def)
  moreover have "start_idx (ipc_set_start_idx (total_size d) d) = total_size d"
    by (simp add: ipc_set_start_idx_def Let_def)
  moreover have "end_idx (ipc_set_start_idx (total_size d) d)
       = min (total_size d + micro_batch_size_per_rank d * world_size d) (total_size d)"
    by (simp add: ipc_set_start_idx_def ipc_calculate_end_idx_def Let_def)
  moreover have "ipc_len (ipc_set_start_idx (total_size d) d)
       = min (micro_batch_size_per_rank d * world_size d) 0"
    by (simp add: ipc_len_def ipc_set_start_idx_def ipc_calculate_end_idx_def Let_def)
  ultimately show ?thesis by simp
qed

text \<open>
  C3 as stated, for every cursor, fails on the IPC dataset: after \<open>set_start_idx(4)\<close> on a
  dataset of 4 entries \<open>start_idx\<close> is 4, not 0.
\<close>

theorem ipc_advance_to_total_size_keeps_start:
  "start_idx (ipc_set_start_idx 4
      (ipc_init \<lparr> cfg_full_dataset = [10, 11, 12, 13 :: nat],
                  cfg_micro_batch_size_per_rank = 2, cfg_world_size = 2 \<rparr>)) \<noteq> 0"
  by (simp add: ipc_set_start_idx_def Let_def)

section \<open>Cross-rank agreement\<close>

text \<open>
  C4, as amended. After a group of two or more ranks has called \<open>set_start_idx\<close>, whatever
  the arguments, objects and segment sizes of the other ranks, every rank returns the same
  flag and holds the same \<open>current_dataset\<close>: when the list \<open>range(start_idx, end_idx)\<close>
  that rank 0 materialised is not empty it is that list on every rank, and when it is empty
  every rank has reset and holds \<open>None\<close>.
\<close>

theorem group_holds_coordinator_segment:
  assumes "rank_group ranks"
  shows "map index_set_after (dummy_set_start_idx_group ranks)
           = replicate (length ranks)
               (Inr (coordinator_segment ranks = [],
                     if coordinator_segment ranks = [] then None else Some (coordinator_segment ranks)))"
proof (rule nth_equalityI)
  show "length (map index_set_after (dummy_set_start_idx_group ranks))
          = length (replicate (length ranks)
               (Inr (coordinator_segment ranks = [],
                     if coordinator_segment ranks = [] then None else Some (coordinator_segment ranks))))"
    by (simp add: length_group)
next
  fix i
  assume "i < length (map index_set_after (dummy_set_start_idx_group ranks))"
  then have i: "i < length ranks" by (simp add: length_group)
  obtain config0 start0 self0 rest where r0: "ranks = (config0, start0, self0) # rest"
    using i by (cases ranks) auto
  obtain config start self where ri: "ranks ! i = (config, start, self)"
    by (cases "ranks ! i") auto
  have rk: "dist_rank (fst (ranks ! j)) = int j" if "j < length ranks" for j
  proof -
    from assms have "map (\<lambda>r. dist_rank (fst r)) ranks ! j = map int [0..<length ranks] ! j"
      by (simp add: rank_group_def)
    with that show ?thesis by simp
  qed
  from rk[OF i] ri have rank_i: "dist_rank config = int i" by simp
  from assms i ri have ws: "1 < dist_world_size config"
    by (auto simp: rank_group_def list_all_length)
  from rank_i r0 ri have rank0: "i = 0 \<Longrightarrow> dist_rank config0 = 0" by simp
  have "index_set_after (dummy_set_start_idx_group ranks ! i)
          = Inr (coordinator_segment ranks = [],
                 if coordinator_segment ranks = [] then None else Some (coordinator_segment ranks))"
  proof (cases "i = 0")
    case True
    with r0 ri have "config = config0" "start = start0" "self = self0" by simp_all
    with True i r0 rank0 show ?thesis
      by (simp add: nth_group coordinator_segment_def coordinator_keeps)
  next
    case False
    from rk[of 0] r0 have c0: "dist_rank config0 = 0" by simp
    from False rank_i have "dist_rank config \<noteq> 0" by simp
    with i r0 ri ws c0 show ?thesis
      by (simp add: nth_group coordinator_segment_def coordinator_channel follower_receives)
  qed
  with i show "map index_set_after (dummy_set_start_idx_group ranks) ! i
          = replicate (length ranks)
               (Inr (coordinator_segment ranks = [],
                     if coordinator_segment ranks = [] then None else Some (coordinator_segment ranks))) ! i"
    by (simp add: length_group)
qed

text \<open>
  Two ranks whose configurations and arguments differ: rank 1 would compute \<open>[6, 7)\<close> from
  its own values and holds the coordinator's \<open>[4, 8)\<close>.
\<close>

theorem group_holds_coordinator_segment_witness:
  "rank_group
     [(\<lparr> seg_size = 2, dummy_total_size = 10, dist_rank = 0, dist_world_size = 2 \<rparr>, 4,
       \<lparr> dummy_start_idx = 0, dummy_end_idx = 4, current_dataset = Some [0, 1, 2, 3] \<rparr>),
      (\<lparr> seg_size = 3, dummy_total_size = 7, dist_rank = 1, dist_world_size = 2 \<rparr>, 6,
       \<lparr> dummy_start_idx = 0, dummy_end_idx = 4, current_dataset = Some [0, 1, 2, 3] \<rparr>)]
   \<and> map index_set_after (dummy_set_start_idx_group
     [(\<lparr> seg_size = 2, dummy_total_size = 10, dist_rank = 0, dist_world_size = 2 \<rparr>, 4,
       \<lparr> dummy_start_idx = 0, dummy_end_idx = 4, current_dataset = Some [0, 1, 2, 3] \<rparr>),
      (\<lparr> seg_size = 3, dummy_total_size = 7, dist_rank = 1, dist_world_size = 2 \<rparr>, 6,
       \<lparr> dummy_start_idx = 0, dummy_end_idx = 4, current_dataset = Some [0, 1, 2, 3] \<rparr>)])
     = [Inr (False, Some [4, 5, 6, 7]), Inr (False, Some [4, 5, 6, 7])]"
proof -
  have g: "rank_group
     [(\<lparr> seg_size = 2, dummy_total_size = 10, dist_rank = 0, dist_world_size = 2 \<rparr>, 4,
       \<lparr> dummy_start_idx = 0, dummy_end_idx = 4, current_dataset = Some [0, 1, 2, 3] \<rparr>),
      (\<lparr> seg_size = 3, dummy_total_size = 7, dist_rank = 1, dist_world_size = 2 \<rparr>, 6,
       \<lparr> dummy_start_idx = 0, dummy_end_idx = 4, current_dataset = Some [0, 1, 2, 3] \<rparr>)]"
    by (simp add: rank_group_def upt_conv_Cons)
  have s: "coordinator_segment
     [(\<lparr> seg_size = 2, dummy_total_size = 10, dist_rank = 0, dist_world_size = 2 \<rparr>, 4,
       \<lparr> dummy_start_idx = 0, dummy_end_idx = 4, current_dataset = Some [0, 1, 2, 3] \<rparr>),
      (\<lparr> seg_size = 3, dummy_total_size = 7, dist_rank = 1, dist_world_size = 2 \<rparr>, 6,
       \<lparr> dummy_start_idx = 0, dummy_end_idx = 4, current_dataset = Some [0, 1, 2, 3] \<rparr>)]
     = [4, 5, 6, 7]"
    by code_simp
  show ?thesis
    using g group_holds_coordinator_segment [OF g] by (simp add: s)
qed

text \<open>
  C4 as stated, after any advance, fails for the advance that exhausts the dataset: rank 1
  is left with \<open>None\<close>, not with the list \<open>range(start_idx, end_idx)\<close>.
\<close>

theorem exhausted_group_holds_no_list:
  "dummy_set_start_idx_group
     [(\<lparr> seg_size = 2, dummy_total_size = 4, dist_rank = 0, dist_world_size = 2 \<rparr>, 4,
       \<lparr> dummy_start_idx = 0, dummy_end_idx = 4, current_dataset = Some [0, 1, 2, 3] \<rparr>),
      (\<lparr> seg_size = 2, dummy_total_size = 4, dist_rank = 1, dist_world_size = 2 \<rparr>, 4,
       \<lparr> dummy_start_idx = 0, dummy_end_idx = 4, current_dataset = Some [0, 1, 2, 3] \<rparr>)] ! 1
   = Inr (True, \<lparr> dummy_start_idx = 0, dummy_end_idx = 0, current_dataset = None \<rparr>)"
  by code_simp

section \<open>Reset\<close>

text \<open>
  C10, as amended. \<open>reset()\<close> leaves \<open>start_idx = 0\<close>, \<open>end_idx = 0\<close> and no index set,
  which is the state of a freshly constructed object, and calling it twice is the same as
  calling it once. The \<open>end_idx\<close> it leaves is the boundary of start 0 only when
  \<open>min(seg_size * world_size, total_size)\<close> is 0.
\<close>

theorem reset_restores_constructed_state:
  "dummy_start_idx (dummy_reset self) = 0
   \<and> dummy_end_idx (dummy_reset self) = 0
   \<and> current_dataset (dummy_reset self) = None
   \<and> dummy_reset self = dummy_init config
   \<and> dummy_reset (dummy_reset self) = dummy_reset self
   \<and> (dummy_end_idx (dummy_reset self) = dummy_calculate_end_idx config (dummy_reset self))
       = (min (seg_size config * dist_world_size config) (dummy_total_size config) = 0)"
  by (cases self) (auto simp: dummy_reset_def dummy_init_def dummy_calculate_end_idx_def)

text \<open>
  C10 as stated (\<open>end = boundary(0)\<close>) fails for \<open>seg_size = 2\<close>, two ranks and
  \<open>total_size = 10\<close>: the boundary of start 0 is 4 and \<open>reset()\<close> leaves 0.
\<close>

theorem reset_end_is_not_boundary:
  "dummy_end_idx (dummy_reset \<lparr> dummy_start_idx = 4, dummy_end_idx = 8,
                                  current_dataset = Some [4, 5, 6, 7] \<rparr>)
     \<noteq> min (seg_size \<lparr> seg_size = 2, dummy_total_size = 10, dist_rank = 0, dist_world_size = 2 \<rparr>
              * dist_world_size \<lparr> seg_size = 2, dummy_total_size = 10, dist_rank = 0, dist_world_size = 2 \<rparr>)
            (dummy_total_size \<lparr> seg_size = 2, dummy_total_size = 10, dist_rank = 0, dist_world_size = 2 \<rparr>)"
  by (simp add: dummy_reset_def)

section \<open>Window invariant\<close>

text \<open>
  C2, as amended. From construction with a non-negative product
  \<open>micro_batch_size_per_rank * world_size\<close>, through calls of \<open>set_start_idx\<close> with an argument
  in \<open>[0, total_size]\<close> and loads of checkpoints whose \<open>end_idx\<close> lies in \<open>[0, total_size]\<close>
  and whose batch size keeps the product non-negative, every state has
  \<open>0 \<le> start_idx \<le> end_idx \<le> total_size\<close>. Through calls of \<open>set_start_idx\<close> with any
  argument and loads that do not change the batch size, every state has
  \<open>end_idx = min(start_idx + micro_batch_size_per_rank * world_size, total_size)\<close> for the
  current batch size. Through arbitrary calls only \<open>end_idx \<le> total_size\<close> is kept.
  \<open>save_checkpoint\<close> does not change the object, and \<open>reset\<close>, which only the dummy dataset
  has, sets \<open>start_idx = end_idx = 0\<close>.
\<close>

theorem reachable_window_invariant:
  "(0 \<le> cfg_micro_batch_size_per_rank config * cfg_world_size config
      \<and> ipc_reachable in_range_call config self
    \<longrightarrow> 0 \<le> start_idx self \<and> start_idx self \<le> end_idx self \<and> end_idx self \<le> total_size self)
   \<and> (ipc_reachable keeps_batch_size config self
    \<longrightarrow> end_idx self
          = min (start_idx self + micro_batch_size_per_rank self * world_size self) (total_size self))
   \<and> (ipc_reachable any_call config self \<longrightarrow> end_idx self \<le> total_size self)
   \<and> dummy_start_idx (dummy_reset d) = 0 \<and> dummy_end_idx (dummy_reset d) = 0"
proof -
  have "0 \<le> start_idx self \<and> start_idx self \<le> end_idx self \<and> end_idx self \<le> total_size self"
    if "0 \<le> cfg_micro_batch_size_per_rank config * cfg_world_size config"
      and "ipc_reachable in_range_call config self"
    using window_ok_reachable[OF that] by (simp add: window_ok_def)
  moreover have "end_idx self
          = min (start_idx self + micro_batch_size_per_rank self * world_size self) (total_size self)"
    if "ipc_reachable keeps_batch_size config self"
    using boundary_reachable[OF that] by (simp add: ipc_calculate_end_idx_def)
  moreover have "end_idx self \<le> total_size self" if "ipc_reachable any_call config self"
    using that by (rule clamped_reachable)
  moreover have "dummy_start_idx (dummy_reset d) = 0 \<and> dummy_end_idx (dummy_reset d) = 0"
    by (simp add: dummy_reset_def)
  ultimately show ?thesis by blast
qed

text \<open>
  Ten entries, batch size 2 on 2 ranks: \<open>set_start_idx(4)\<close>, a save, then the load of
  the checkpoint saved at \<open>end_idx = 8\<close> with the same batch size, which leaves the window
  \<open>[8, 10)\<close>.
\<close>

theorem reachable_window_invariant_witness:
  "0 \<le> cfg_micro_batch_size_per_rank
          \<lparr> cfg_full_dataset = [100, 101, 102, 103, 104, 105, 106, 107, 108, 109 :: nat],
            cfg_micro_batch_size_per_rank = 2, cfg_world_size = 2 \<rparr>
        * cfg_world_size
          \<lparr> cfg_full_dataset = [100, 101, 102, 103, 104, 105, 106, 107, 108, 109 :: nat],
            cfg_micro_batch_size_per_rank = 2, cfg_world_size = 2 \<rparr>
   \<and> ipc_reachable in_range_call
        \<lparr> cfg_full_dataset = [100, 101, 102, 103, 104, 105, 106, 107, 108, 109 :: nat],
            cfg_micro_batch_size_per_rank = 2, cfg_world_size = 2 \<rparr>
        (ipc_exec (Load_checkpoint (Some [(''end_idx'', 8), (''micro_batch_size_per_rank'', 2)]))
           (ipc_exec (Save_checkpoint ''checkpoint.pt'' 0)
              (ipc_exec (Set_start_idx 4)
                 (ipc_init
                    \<lparr> cfg_full_dataset = [100, 101, 102, 103, 104, 105, 106, 107, 108, 109 :: nat],
                      cfg_micro_batch_size_per_rank = 2, cfg_world_size = 2 \<rparr>))))
   \<and> ipc_reachable keeps_batch_size
        \<lparr> cfg_full_dataset = [100, 101, 102, 103, 104, 105, 106, 107, 108, 109 :: nat],
            cfg_micro_batch_size_per_rank = 2, cfg_world_size = 2 \<rparr>
        (ipc_exec (Load_checkpoint (Some [(''end_idx'', 8), (''micro_batch_size_per_rank'', 2)]))
           (ipc_exec (Save_checkpoint ''checkpoint.pt'' 0)
              (ipc_exec (Set_start_idx 4)
                 (ipc_init
                    \<lparr> cfg_full_dataset = [100, 101, 102, 103, 104, 105, 106, 107, 108, 109 :: nat],
                      cfg_micro_batch_size_per_rank = 2, cfg_world_size = 2 \<rparr>))))
   \<and> ipc_reachable any_call
        \<lparr> cfg_full_dataset = [100, 101, 102, 103, 104, 105, 106, 107, 108, 109 :: nat],
            cfg_micro_batch_size_per_rank = 2, cfg_world_size = 2 \<rparr>
        (ipc_exec (Load_checkpoint (Some [(''end_idx'', 8), (''micro_batch_size_per_rank'', 2)]))
           (ipc_exec (Save_checkpoint ''checkpoint.pt'' 0)
              (ipc_exec (Set_start_idx 4)
                 (ipc_init
                    \<lparr> cfg_full_dataset = [100, 101, 102, 103, 104, 105, 106, 107, 108, 109 :: nat],
                      cfg_micro_batch_size_per_rank = 2, cfg_world_size = 2 \<rparr>))))
   \<and> start_idx
        (ipc_exec (Load_checkpoint (Some [(''end_idx'', 8), (''micro_batch_size_per_rank'', 2)]))
           (ipc_exec (Save_checkpoint ''checkpoint.pt'' 0)
              (ipc_exec (Set_start_idx 4)
                 (ipc_init
                    \<lparr> cfg_full_dataset = [100, 101, 102, 103, 104, 105, 106, 107, 108, 109 :: nat],
                      cfg_micro_batch_size_per_rank = 2, cfg_world_size = 2 \<rparr>)))) = 8
   \<and> end_idx
        (ipc_exec (Load_checkpoint (Some [(''end_idx'', 8), (''micro_batch_size_per_rank'', 2)]))
           (ipc_exec (Save_checkpoint ''checkpoint.pt'' 0)
              (ipc_exec (Set_start_idx 4)
                 (ipc_init
                    \<lparr> cfg_full_dataset = [100, 101, 102, 103, 104, 105, 106, 107, 108, 109 :: nat],
                      cfg_micro_batch_size_per_rank = 2, cfg_world_size = 2 \<rparr>)))) = 10"
proof -
  let ?config = "\<lparr> cfg_full_dataset = [100, 101, 102, 103, 104, 105, 106, 107, 108, 109 :: nat],
                    cfg_micro_batch_size_per_rank = 2, cfg_world_size = 2 \<rparr>"
  let ?ck = "[(''end_idx'', 8), (''micro_batch_size_per_rank'', 2)] :: checkpoint"
  let ?s1 = "ipc_exec (Set_start_idx 4) (ipc_init ?config)"
  let ?s2 = "ipc_exec (Save_checkpoint ''checkpoint.pt'' 0) ?s1"
  let ?s3 = "ipc_exec (Load_checkpoint (Some ?ck)) ?s2"
  have a1: "in_range_call (ipc_init ?config) (Set_start_idx 4)"
    by (simp add: ipc_init_fields)
  have a2: "in_range_call ?s1 (Save_checkpoint ''checkpoint.pt'' 0)" by simp
  have a3: "in_range_call ?s2 (Load_checkpoint (Some ?ck))"
    by (simp add: ipc_init_fields ipc_set_start_idx_fields dict_get_def)
  have b1: "keeps_batch_size (ipc_init ?config) (Set_start_idx 4)" by simp
  have b2: "keeps_batch_size ?s1 (Save_checkpoint ''checkpoint.pt'' 0)" by simp
  have b3: "keeps_batch_size ?s2 (Load_checkpoint (Some ?ck))"
    by (simp add: ipc_init_fields ipc_set_start_idx_fields dict_get_def)
  have c1: "any_call (ipc_init ?config) (Set_start_idx 4)" by simp
  have c2: "any_call ?s1 (Save_checkpoint ''checkpoint.pt'' 0)" by simp
  have c3: "any_call ?s2 (Load_checkpoint (Some ?ck))" by simp
  have "ipc_reachable in_range_call ?config (ipc_init ?config)" by (rule constructed)
  then have "ipc_reachable in_range_call ?config ?s1" using a1 by (rule called)
  then have "ipc_reachable in_range_call ?config ?s2" using a2 by (rule called)
  then have r1: "ipc_reachable in_range_call ?config ?s3" using a3 by (rule called)
  have "ipc_reachable keeps_batch_size ?config (ipc_init ?config)" by (rule constructed)
  then have "ipc_reachable keeps_batch_size ?config ?s1" using b1 by (rule called)
  then have "ipc_reachable keeps_batch_size ?config ?s2" using b2 by (rule called)
  then have r2: "ipc_reachable keeps_batch_size ?config ?s3" using b3 by (rule called)
  have "ipc_reachable any_call ?config (ipc_init ?config)" by (rule constructed)
  then have "ipc_reachable any_call ?config ?s1" using c1 by (rule called)
  then have "ipc_reachable any_call ?config ?s2" using c2 by (rule called)
  then have r3: "ipc_reachable any_call ?config ?s3" using c3 by (rule called)
  have st: "start_idx ?s3 = 8" "total_size ?s3 = 10"
      "micro_batch_size_per_rank ?s3 = 2" "world_size ?s3 = 2"
    by (simp_all add: ipc_apply_checkpoint_truthy ipc_set_start_idx_fields ipc_init_fields dict_get_def)
  from reachable_window_invariant [of ?config ?s3] r1 r2 r3 st
  show ?thesis by simp
qed

text \<open>
  C2 as stated, with arbitrary integer arguments, fails: \<open>set_start_idx(-1)\<close> on a freshly
  constructed object leaves \<open>start_idx = -1\<close>.
\<close>

theorem negative_start_is_reachable:
  "start_idx (ipc_exec (Set_start_idx (- 1))
      (ipc_init \<lparr> cfg_full_dataset = [100, 101, 102, 103 :: nat],
                  cfg_micro_batch_size_per_rank = 2, cfg_world_size = 2 \<rparr>)) < 0"
  by (simp add: ipc_set_start_idx_fields)

section \<open>Checkpoint round trip\<close>

text \<open>
  C6. After \<open>save_checkpoint\<close> on rank 0, the record at the path is
  \<open>{end_idx, micro_batch_size_per_rank}\<close> of the saving object, and
  \<open>load_checkpoint_and_broadcast\<close> on a freshly constructed object, on rank 0 which reads the
  record and on every other rank which receives it, returns an object whose \<open>start_idx\<close> is
  the saved \<open>end_idx\<close>, whatever the configuration. With 4 entries, batch size 2 on 2 ranks
  and a checkpoint saved at \<open>end_idx = 4\<close>, the resumed object has \<open>start_idx = 4\<close>.
\<close>

theorem checkpoint_round_trip:
  "torch_load (ipc_save_checkpoint self path 0 store) path
     = Inr [(''end_idx'', end_idx self),
            (''micro_batch_size_per_rank'', micro_batch_size_per_rank self)]
   \<and> (\<exists>warnings resumed.
         ipc_load_checkpoint_and_broadcast (ipc_save_checkpoint self path 0 store)
            (Some [(''end_idx'', end_idx self),
                   (''micro_batch_size_per_rank'', micro_batch_size_per_rank self)])
            path rank (ipc_init config)
           = Inr (warnings, resumed)
         \<and> start_idx resumed = end_idx self)
   \<and> ipc_load_checkpoint_and_broadcast
         (ipc_save_checkpoint
            (ipc_init \<lparr> cfg_full_dataset = [100, 101, 102, 103 :: nat],
                        cfg_micro_batch_size_per_rank = 2, cfg_world_size = 2 \<rparr>)
            ''checkpoint.pt'' 0 (\<lambda>p. None))
         None ''checkpoint.pt'' 0
         (ipc_init \<lparr> cfg_full_dataset = [100, 101, 102, 103 :: nat],
                     cfg_micro_batch_size_per_rank = 2, cfg_world_size = 2 \<rparr>)
       = Inr ([], \<lparr> full_dataset = [100, 101, 102, 103], micro_batch_size_per_rank = 2,
                    world_size = 2, total_size = 4, start_idx = 4, end_idx = 4 \<rparr>)"
proof (intro conjI)
  let ?ck = "[(''end_idx'', end_idx self),
              (''micro_batch_size_per_rank'', micro_batch_size_per_rank self)]"
  show saved: "torch_load (ipc_save_checkpoint self path 0 store) path = Inr ?ck"
    by (rule torch_load_saved)
  have "start_idx (snd (ipc_apply_checkpoint (Some ?ck) (ipc_init config))) = end_idx self"
    by (simp add: ipc_apply_checkpoint_truthy ipc_set_start_idx_fields dict_get_def)
  then show "\<exists>warnings resumed.
         ipc_load_checkpoint_and_broadcast (ipc_save_checkpoint self path 0 store) (Some ?ck)
            path rank (ipc_init config)
           = Inr (warnings, resumed)
         \<and> start_idx resumed = end_idx self"
    by (simp add: load_delivers [OF saved] prod_eq_iff)
  show "ipc_load_checkpoint_and_broadcast
         (ipc_save_checkpoint
            (ipc_init \<lparr> cfg_full_dataset = [100, 101, 102, 103 :: nat],
                        cfg_micro_batch_size_per_rank = 2, cfg_world_size = 2 \<rparr>)
            ''checkpoint.pt'' 0 (\<lambda>p. None))
         None ''checkpoint.pt'' 0
         (ipc_init \<lparr> cfg_full_dataset = [100, 101, 102, 103 :: nat],
                     cfg_micro_batch_size_per_rank = 2, cfg_world_size = 2 \<rparr>)
       = Inr ([], \<lparr> full_dataset = [100, 101, 102, 103], micro_batch_size_per_rank = 2,
                    world_size = 2, total_size = 4, start_idx = 4, end_idx = 4 \<rparr>)"
    by (simp add: ipc_load_checkpoint_and_broadcast_def broadcast_dict_def torch_load_def
          ipc_save_checkpoint_def torch_save_def ipc_apply_checkpoint_def dict_get_def
          ipc_set_start_idx_def ipc_init_def ipc_calculate_end_idx_def Let_def)
qed

section \<open>Checkpoint reconciliation\<close>

text \<open>
  C7. When the checkpoint at the path carries a \<open>micro_batch_size_per_rank\<close> that differs from
  the object's, \<open>load_checkpoint_and_broadcast\<close> raises nothing on any rank: it returns with
  exactly one warning, which names both values, and the object has adopted the
  checkpoint's batch size.
\<close>

theorem checkpoint_batch_size_adopted:
  assumes "torch_load store path = Inr ck"
    and "map_of ck ''micro_batch_size_per_rank'' = Some m"
    and "m \<noteq> micro_batch_size_per_rank self"
  shows "\<exists>resumed.
           ipc_load_checkpoint_and_broadcast store (Some ck) path rank self
             = Inr ([Micro_batch_size_changed m (micro_batch_size_per_rank self)], resumed)
           \<and> micro_batch_size_per_rank resumed = m
           \<and> start_idx resumed = dict_get ck ''end_idx'' 0"
proof -
  from assms(2) have "ck \<noteq> []" by auto
  with assms(2,3) show ?thesis
    by (simp add: load_delivers [OF assms(1)] ipc_apply_checkpoint_def ipc_set_start_idx_fields Let_def)
qed

text \<open>A checkpoint saved with batch size 4, loaded by an object configured with 2.\<close>

theorem checkpoint_batch_size_adopted_witness:
  "torch_load (\<lambda>p. if p = ''checkpoint.pt''
                     then Some [(''end_idx'', 8), (''micro_batch_size_per_rank'', 4)] else None)
      ''checkpoint.pt''
     = Inr [(''end_idx'', 8), (''micro_batch_size_per_rank'', 4)]
   \<and> map_of [(''end_idx'', 8), (''micro_batch_size_per_rank'', 4 :: int)] ''micro_batch_size_per_rank''
       = Some 4
   \<and> 4 \<noteq> micro_batch_size_per_rank
        (ipc_init \<lparr> cfg_full_dataset = [100, 101, 102, 103, 104, 105, 106, 107, 108, 109 :: nat],
                    cfg_micro_batch_size_per_rank = 2, cfg_world_size = 2 \<rparr>)
   \<and> (\<exists>resumed.
         ipc_load_checkpoint_and_broadcast
            (\<lambda>p. if p = ''checkpoint.pt''
                  then Some [(''end_idx'', 8), (''micro_batch_size_per_rank'', 4)] else None)
            (Some [(''end_idx'', 8), (''micro_batch_size_per_rank'', 4)]) ''checkpoint.pt'' 0
            (ipc_init \<lparr> cfg_full_dataset = [100, 101, 102, 103, 104, 105, 106, 107, 108, 109 :: nat],
                        cfg_micro_batch_size_per_rank = 2, cfg_world_size = 2 \<rparr>)
           = Inr ([Micro_batch_size_changed 4 2], resumed)
         \<and> micro_batch_size_per_rank resumed = 4
         \<and> start_idx resumed = 8)"
proof -
  let ?store = "\<lambda>p. if p = ''checkpoint.pt''
                     then Some [(''end_idx'', 8), (''micro_batch_size_per_rank'', 4 :: int)] else None"
  let ?ck = "[(''end_idx'', 8), (''micro_batch_size_per_rank'', 4)] :: checkpoint"
  let ?self = "ipc_init \<lparr> cfg_full_dataset = [100, 101, 102, 103, 104, 105, 106, 107, 108, 109 :: nat],
                            cfg_micro_batch_size_per_rank = 2, cfg_world_size = 2 \<rparr>"
  have h1: "torch_load ?store ''checkpoint.pt'' = Inr ?ck" by (simp add: torch_load_def)
  have h2: "map_of ?ck ''micro_batch_size_per_rank'' = Some 4" by simp
  have h3: "4 \<noteq> micro_batch_size_per_rank ?self" by (simp add: ipc_init_fields)
  from checkpoint_batch_size_adopted [OF h1 h2 h3, of 0] h1 h2 h3
  show ?thesis by (simp add: ipc_init_fields dict_get_def)
qed

section \<open>Index resolution\<close>

text \<open>
  C8. \<open>__getitem__\<close> is claimed to fail for every local index outside \<open>[0, length())\<close>.
  With ten entries and the window \<open>[4, 8)\<close>, whose length is 4, the local index \<open>-1\<close> passes
  the check \<open>idx >= end_idx - start_idx\<close> and resolves the handle at global position 3,
  which lies before the window.
\<close>

theorem getitem_negative_index:
  "ipc_getitem
     (ipc_set_start_idx 4
        (ipc_init \<lparr> cfg_full_dataset = [100, 101, 102, 103, 104, 105, 106, 107, 108, 109 :: nat],
                    cfg_micro_batch_size_per_rank = 2, cfg_world_size = 2 \<rparr>))
     (- 1)
   = Inr 103
   \<and> ipc_len
     (ipc_set_start_idx 4
        (ipc_init \<lparr> cfg_full_dataset = [100, 101, 102, 103, 104, 105, 106, 107, 108, 109 :: nat],
                    cfg_micro_batch_size_per_rank = 2, cfg_world_size = 2 \<rparr>)) = 4"
  by (simp add: ipc_getitem_def py_getitem_def ipc_len_def ipc_set_start_idx_fields ipc_init_fields)

section \<open>Construction\<close>

text \<open>
  C9, as amended. Construction accepts every configuration: it sets \<open>start_idx = 0\<close>,
  \<open>total_size = len(full_dataset)\<close> and
  \<open>end_idx = min(micro_batch_size_per_rank * world_size, total_size)\<close>. With a batch size of 0
  or a world size of 0 the constructed window is empty, \<open>end_idx = start_idx\<close>, and with an
  empty dataset \<open>total_size\<close> is 0.
\<close>

theorem construction_accepts_every_configuration:
  "start_idx (ipc_init config) = 0
   \<and> total_size (ipc_init config) = int (length (cfg_full_dataset config))
   \<and> end_idx (ipc_init config)
       = min (cfg_micro_batch_size_per_rank config * cfg_world_size config)
             (int (length (cfg_full_dataset config)))
   \<and> end_idx (ipc_init (config\<lparr>cfg_micro_batch_size_per_rank := 0\<rparr>))
       = start_idx (ipc_init (config\<lparr>cfg_micro_batch_size_per_rank := 0\<rparr>))
   \<and> end_idx (ipc_init (config\<lparr>cfg_world_size := 0\<rparr>))
       = start_idx (ipc_init (config\<lparr>cfg_world_size := 0\<rparr>))
   \<and> total_size (ipc_init (config\<lparr>cfg_full_dataset := []\<rparr>)) = 0"
  by (simp add: ipc_init_fields)

text \<open>
  C9 as stated (a zero product is rejected, never clamped so that end equals start) fails:
  a batch size of 0 on 2 ranks over 3 entries constructs the object with
  \<open>start_idx = end_idx = 0\<close>.
\<close>

theorem zero_product_is_accepted:
  "ipc_init \<lparr> cfg_full_dataset = [100, 101, 102 :: nat],
              cfg_micro_batch_size_per_rank = 0, cfg_world_size = 2 \<rparr>
   = \<lparr> full_dataset = [100, 101, 102], micro_batch_size_per_rank = 0, world_size = 2,
       total_size = 3, start_idx = 0, end_idx = 0 \<rparr>"
  by (simp add: ipc_init_def ipc_calculate_end_idx_def)

end
